theory Spec2Isabelle
  imports Complex_Main
begin

section \<open>Python values, name lookup and errors\<close>

text \<open>
  The values a Python name can be bound to, as far as \<open>get_data\<close> can tell them apart:
  integers (unbounded), booleans, strings, \<open>None\<close>, and any other object (a module, a
  function, a \<open>__future__\<close> feature), kept opaque under its name. Floats are left out.
\<close>

datatype pyval = PInt int | PBool bool | PStr string | PNone | PObj string

text \<open>
  The two exceptions \<open>get_data\<close> can end with: the \<open>NameError\<close> of the interpreter for
  a name bound neither in the module nor in the builtins, and the
  \<open>Exception('invalid data level')\<close> that the last branch raises.
\<close>

datatype error = NameError string | Exception string

text \<open>
  A namespace maps names to values. A name that is not local to a function is looked up
  in the global namespace of its module when the function runs.
\<close>

type_synonym namespace = "string \<rightharpoonup> pyval"

definition load_global :: "namespace \<Rightarrow> string \<Rightarrow> error + pyval" where
  "load_global globals name =
     (case globals name of None \<Rightarrow> Inl (NameError name) | Some v \<Rightarrow> Inr v)"

text \<open>
  The comparison \<open>v == k\<close> of a value with an integer literal: integers compare by value,
  \<open>True\<close> and \<open>False\<close> are the integers 1 and 0, and a string, \<open>None\<close> or an opaque
  object is equal to no integer.
\<close>

fun py_eq_int :: "pyval \<Rightarrow> int \<Rightarrow> bool" where
  "py_eq_int (PInt i) k = (i = k)"
| "py_eq_int (PBool b) k = ((if b then 1 else 0) = k)"
| "py_eq_int (PStr s) k = False"
| "py_eq_int PNone k = False"
| "py_eq_int (PObj n) k = False"

text \<open>\<open>np.array(xs, dtype=bool)\<close> on a list of integers: an entry is true unless it is 0.\<close>

definition np_array_bool :: "int list \<Rightarrow> bool list" where
  "np_array_bool xs = map (\<lambda>x. x \<noteq> 0) xs"

section \<open>The observed data: \<open>examples/codon2x3/npdata.py\<close>\<close>

type_synonym primary_data = "string \<rightharpoonup> bool list"
type_synonym tol_data = "int \<rightharpoonup> (string \<rightharpoonup> bool list)"

subsection \<open>The branch \<open>data_level == 0\<close>\<close>

definition primary_data_0 :: primary_data where
  "primary_data_0 = [
     ''N0'' \<mapsto> np_array_bool [1, 1, 1, 1, 1, 1],
     ''N1'' \<mapsto> np_array_bool [1, 1, 1, 1, 1, 1],
     ''N2'' \<mapsto> np_array_bool [1, 1, 1, 1, 1, 1],
     ''N3'' \<mapsto> np_array_bool [1, 1, 1, 1, 1, 1],
     ''N4'' \<mapsto> np_array_bool [1, 1, 1, 1, 1, 1],
     ''N5'' \<mapsto> np_array_bool [1, 1, 1, 1, 1, 1]]"

definition tol_data_0 :: tol_data where
  "tol_data_0 = [
     0 \<mapsto> [
       ''N0'' \<mapsto> np_array_bool [1, 1],
       ''N1'' \<mapsto> np_array_bool [1, 1],
       ''N2'' \<mapsto> np_array_bool [1, 1],
       ''N3'' \<mapsto> np_array_bool [1, 1],
       ''N4'' \<mapsto> np_array_bool [1, 1],
       ''N5'' \<mapsto> np_array_bool [1, 1]],
     1 \<mapsto> [
       ''N0'' \<mapsto> np_array_bool [1, 1],
       ''N1'' \<mapsto> np_array_bool [1, 1],
       ''N2'' \<mapsto> np_array_bool [1, 1],
       ''N3'' \<mapsto> np_array_bool [1, 1],
       ''N4'' \<mapsto> np_array_bool [1, 1],
       ''N5'' \<mapsto> np_array_bool [1, 1]],
     2 \<mapsto> [
       ''N0'' \<mapsto> np_array_bool [1, 1],
       ''N1'' \<mapsto> np_array_bool [1, 1],
       ''N2'' \<mapsto> np_array_bool [1, 1],
       ''N3'' \<mapsto> np_array_bool [1, 1],
       ''N4'' \<mapsto> np_array_bool [1, 1],
       ''N5'' \<mapsto> np_array_bool [1, 1]]]"

subsection \<open>The branch \<open>data_level == 1\<close>: alignment data only\<close>

definition primary_data_1 :: primary_data where
  "primary_data_1 = [
     ''N0'' \<mapsto> np_array_bool [1, 0, 0, 0, 0, 0],
     ''N1'' \<mapsto> np_array_bool [1, 1, 1, 1, 1, 1],
     ''N2'' \<mapsto> np_array_bool [1, 1, 1, 1, 1, 1],
     ''N3'' \<mapsto> np_array_bool [0, 0, 0, 0, 1, 0],
     ''N4'' \<mapsto> np_array_bool [0, 0, 0, 0, 0, 1],
     ''N5'' \<mapsto> np_array_bool [0, 1, 0, 0, 0, 0]]"

definition tol_data_1 :: tol_data where
  "tol_data_1 = [
     0 \<mapsto> [
       ''N0'' \<mapsto> np_array_bool [0, 1],
       ''N1'' \<mapsto> np_array_bool [1, 1],
       ''N2'' \<mapsto> np_array_bool [1, 1],
       ''N3'' \<mapsto> np_array_bool [1, 1],
       ''N4'' \<mapsto> np_array_bool [1, 1],
       ''N5'' \<mapsto> np_array_bool [0, 1]],
     1 \<mapsto> [
       ''N0'' \<mapsto> np_array_bool [1, 1],
       ''N1'' \<mapsto> np_array_bool [1, 1],
       ''N2'' \<mapsto> np_array_bool [1, 1],
       ''N3'' \<mapsto> np_array_bool [1, 1],
       ''N4'' \<mapsto> np_array_bool [1, 1],
       ''N5'' \<mapsto> np_array_bool [1, 1]],
     2 \<mapsto> [
       ''N0'' \<mapsto> np_array_bool [1, 1],
       ''N1'' \<mapsto> np_array_bool [1, 1],
       ''N2'' \<mapsto> np_array_bool [1, 1],
       ''N3'' \<mapsto> np_array_bool [0, 1],
       ''N4'' \<mapsto> np_array_bool [0, 1],
       ''N5'' \<mapsto> np_array_bool [1, 1]]]"

subsection \<open>The branch \<open>data_level == 2\<close>: disease data added at node N0\<close>

definition primary_data_2 :: primary_data where
  "primary_data_2 = [
     ''N0'' \<mapsto> np_array_bool [1, 0, 0, 0, 0, 0],
     ''N1'' \<mapsto> np_array_bool [1, 1, 1, 1, 1, 1],
     ''N2'' \<mapsto> np_array_bool [1, 1, 1, 1, 1, 1],
     ''N3'' \<mapsto> np_array_bool [0, 0, 0, 0, 1, 0],
     ''N4'' \<mapsto> np_array_bool [0, 0, 0, 0, 0, 1],
     ''N5'' \<mapsto> np_array_bool [0, 1, 0, 0, 0, 0]]"

definition tol_data_2 :: tol_data where
  "tol_data_2 = [
     0 \<mapsto> [
       ''N0'' \<mapsto> np_array_bool [0, 1],
       ''N1'' \<mapsto> np_array_bool [1, 1],
       ''N2'' \<mapsto> np_array_bool [1, 1],
       ''N3'' \<mapsto> np_array_bool [1, 1],
       ''N4'' \<mapsto> np_array_bool [1, 1],
       ''N5'' \<mapsto> np_array_bool [0, 1]],
     1 \<mapsto> [
       ''N0'' \<mapsto> np_array_bool [1, 0],
       ''N1'' \<mapsto> np_array_bool [1, 1],
       ''N2'' \<mapsto> np_array_bool [1, 1],
       ''N3'' \<mapsto> np_array_bool [1, 1],
       ''N4'' \<mapsto> np_array_bool [1, 1],
       ''N5'' \<mapsto> np_array_bool [1, 1]],
     2 \<mapsto> [
       ''N0'' \<mapsto> np_array_bool [0, 1],
       ''N1'' \<mapsto> np_array_bool [1, 1],
       ''N2'' \<mapsto> np_array_bool [1, 1],
       ''N3'' \<mapsto> np_array_bool [0, 1],
       ''N4'' \<mapsto> np_array_bool [0, 1],
       ''N5'' \<mapsto> np_array_bool [1, 1]]]"

subsection \<open>The branch \<open>data_level == 3\<close>: complete disease data at all leaves\<close>

definition primary_data_3 :: primary_data where
  "primary_data_3 = [
     ''N0'' \<mapsto> np_array_bool [1, 0, 0, 0, 0, 0],
     ''N1'' \<mapsto> np_array_bool [1, 1, 1, 1, 1, 1],
     ''N2'' \<mapsto> np_array_bool [1, 1, 1, 1, 1, 1],
     ''N3'' \<mapsto> np_array_bool [0, 0, 0, 0, 1, 0],
     ''N4'' \<mapsto> np_array_bool [0, 0, 0, 0, 0, 1],
     ''N5'' \<mapsto> np_array_bool [0, 1, 0, 0, 0, 0]]"

definition tol_data_3 :: tol_data where
  "tol_data_3 = [
     0 \<mapsto> [
       ''N0'' \<mapsto> np_array_bool [0, 1],
       ''N1'' \<mapsto> np_array_bool [1, 1],
       ''N2'' \<mapsto> np_array_bool [1, 1],
       ''N3'' \<mapsto> np_array_bool [0, 1],
       ''N4'' \<mapsto> np_array_bool [0, 1],
       ''N5'' \<mapsto> np_array_bool [0, 1]],
     1 \<mapsto> [
       ''N0'' \<mapsto> np_array_bool [1, 0],
       ''N1'' \<mapsto> np_array_bool [1, 1],
       ''N2'' \<mapsto> np_array_bool [1, 1],
       ''N3'' \<mapsto> np_array_bool [0, 1],
       ''N4'' \<mapsto> np_array_bool [0, 1],
       ''N5'' \<mapsto> np_array_bool [0, 1]],
     2 \<mapsto> [
       ''N0'' \<mapsto> np_array_bool [0, 1],
       ''N1'' \<mapsto> np_array_bool [1, 1],
       ''N2'' \<mapsto> np_array_bool [1, 1],
       ''N3'' \<mapsto> np_array_bool [0, 1],
       ''N4'' \<mapsto> np_array_bool [0, 1],
       ''N5'' \<mapsto> np_array_bool [0, 1]]]"

subsection \<open>\<open>get_data\<close>\<close>

text \<open>
  The \<open>if\<close>/\<open>elif\<close> chain of \<open>get_data\<close>, as a function of the value that the name
  \<open>data_level\<close> evaluates to. Each branch binds \<open>primary_data\<close> and \<open>tol_data\<close> to the
  literals above; the last one raises.
\<close>

definition get_data_body :: "pyval \<Rightarrow> error + (primary_data \<times> tol_data)" where
  "get_data_body data_level =
     (if py_eq_int data_level 0 then Inr (primary_data_0, tol_data_0)
      else if py_eq_int data_level 1 then Inr (primary_data_1, tol_data_1)
      else if py_eq_int data_level 2 then Inr (primary_data_2, tol_data_2)
      else if py_eq_int data_level 3 then Inr (primary_data_3, tol_data_3)
      else Inl (Exception ''invalid data level''))"

text \<open>
  \<open>def get_data(level=0)\<close>. The body never mentions its parameter \<open>level\<close>: every test
  reads \<open>data_level\<close>, which is not a local name, so it is looked up in the global
  namespace when the function is called. When the name is unbound the first test
  raises \<open>NameError\<close>. Nothing between the tests rebinds the name, so the model looks it
  up once.
\<close>

definition get_data :: "namespace \<Rightarrow> pyval \<Rightarrow> error + (primary_data \<times> tol_data)" where
  "get_data globals level =
     (case load_global globals ''data_level'' of
        Inl e \<Rightarrow> Inl e
      | Inr data_level \<Rightarrow> get_data_body data_level)"

text \<open>
  The global namespace of the module \<open>npdata\<close> as its own statements build it: the three
  \<open>__future__\<close> imports, \<open>np\<close> and \<open>get_data\<close>. No statement of the module binds
  \<open>data_level\<close>, and no builtin has that name.
\<close>

definition npdata_globals :: namespace where
  "npdata_globals = [
     ''division'' \<mapsto> PObj ''__future__.division'',
     ''print_function'' \<mapsto> PObj ''__future__.print_function'',
     ''absolute_import'' \<mapsto> PObj ''__future__.absolute_import'',
     ''np'' \<mapsto> PObj ''numpy'',
     ''get_data'' \<mapsto> PObj ''npdata.get_data'']"

text \<open>Reading a result: \<open>primary_data[node]\<close> and \<open>tol_data[c][node]\<close> of a returned pair.\<close>

definition primary_at :: "error + (primary_data \<times> tol_data) \<Rightarrow> string \<Rightarrow> bool list option" where
  "primary_at r node = (case r of Inl e \<Rightarrow> None | Inr (p, t) \<Rightarrow> p node)"

definition tol_at :: "error + (primary_data \<times> tol_data) \<Rightarrow> int \<Rightarrow> string \<Rightarrow> bool list option" where
  "tol_at r c node =
     (case r of Inl e \<Rightarrow> None
      | Inr (p, t) \<Rightarrow> (case t c of None \<Rightarrow> None | Some d \<Rightarrow> d node))"

text \<open>The node names used as keys by every level.\<close>

definition node_names :: "string list" where
  "node_names = [''N0'', ''N1'', ''N2'', ''N3'', ''N4'', ''N5'']"

section \<open>The two parameter sets\<close>

text \<open>
  The modules \<open>npmodel\<close> (model A) and \<open>npmodelb\<close> (model B) define functions of the same
  names; each definition below carries the name of its module in front. Python floats
  are modelled as reals: every literal of the two modules (0, 0.5, 1, 2.0) is a dyadic
  number that a float holds exactly, and so are the products \<open>2.0 * blen\<close> and
  \<open>0.5 * blen\<close>.
\<close>

subsection \<open>What the modules import\<close>

text \<open>
  Modelled from the spec: \<open>normalized\<close> is imported from \<open>npmctree.util\<close>, a library
  outside the source tree. The spec says of it that the vector is normalized to sum
  to 1: every entry is divided by the sum of the entries. Both modules call it on
  vectors with a positive sum only.
\<close>

definition normalized :: "real list \<Rightarrow> real list" where
  "normalized v = map (\<lambda>x. x / sum_list v) v"

text \<open>
  Modelled from the spec: the graph class \<open>nx.DiGraph\<close> belongs to the library networkx,
  outside the source tree. The spec describes the topology as a list of directed edges
  (parent, child) over named nodes. A graph is the list of its nodes and the list of
  its edges, both in the order of insertion and without repetition; adding an edge
  adds its two end points first.
\<close>

record DiGraph =
  nodes :: "string list"
  edges :: "(string \<times> string) list"

definition DiGraph_new :: DiGraph where
  "DiGraph_new = \<lparr>nodes = [], edges = []\<rparr>"

definition add_node :: "DiGraph \<Rightarrow> string \<Rightarrow> DiGraph" where
  "add_node G n = (if n \<in> set (nodes G) then G else G\<lparr>nodes := nodes G @ [n]\<rparr>)"

definition add_edge :: "DiGraph \<Rightarrow> string \<times> string \<Rightarrow> DiGraph" where
  "add_edge G e =
     (let G' = add_node (add_node G (fst e)) (snd e)
      in if e \<in> set (edges G') then G' else G'\<lparr>edges := edges G' @ [e]\<rparr>)"

definition add_edges_from :: "DiGraph \<Rightarrow> (string \<times> string) list \<Rightarrow> DiGraph" where
  "add_edges_from G es = foldl add_edge G es"

text \<open>The number of edges that end in a node.\<close>

definition in_degree :: "DiGraph \<Rightarrow> string \<Rightarrow> nat" where
  "in_degree G n = length (filter (\<lambda>e. snd e = n) (edges G))"

subsection \<open>Model A: \<open>examples/codon2x3/npmodel.py\<close>\<close>

definition npmodel_get_rate_on :: real where
  "npmodel_get_rate_on = 1.0"

definition npmodel_get_rate_off :: real where
  "npmodel_get_rate_off = 1.0"

definition npmodel_get_blink_distn :: "real list" where
  "npmodel_get_blink_distn = normalized [npmodel_get_rate_off, npmodel_get_rate_on]"

definition npmodel_get_Q_primary :: "real list list" where
  "npmodel_get_Q_primary = [
     [0, 1, 1, 0, 0, 0],
     [1, 0, 0, 1, 0, 0],
     [1, 0, 0, 1, 1, 0],
     [0, 1, 1, 0, 0, 1],
     [0, 0, 1, 0, 0, 1],
     [0, 0, 0, 1, 1, 0]]"

definition npmodel_get_T_and_root :: "DiGraph \<times> string" where
  "npmodel_get_T_and_root =
     (let T = DiGraph_new;
          T = add_edges_from T [
            (''N1'', ''N0''),
            (''N1'', ''N2''),
            (''N1'', ''N5''),
            (''N2'', ''N3''),
            (''N2'', ''N4'')]
      in (T, ''N1''))"

definition npmodel_get_edge_to_blen :: "string \<times> string \<rightharpoonup> real" where
  "npmodel_get_edge_to_blen = [
     (''N1'', ''N0'') \<mapsto> 0.5,
     (''N1'', ''N2'') \<mapsto> 0.5,
     (''N1'', ''N5'') \<mapsto> 0.5,
     (''N2'', ''N3'') \<mapsto> 0.5,
     (''N2'', ''N4'') \<mapsto> 0.5]"

subsection \<open>Model B: \<open>examples/codon2x3/npmodelb.py\<close>\<close>

definition npmodelb_get_rate_on :: real where
  "npmodelb_get_rate_on = 2.0"

definition npmodelb_get_rate_off :: real where
  "npmodelb_get_rate_off = 0.5"

definition npmodelb_get_blink_distn :: "real list" where
  "npmodelb_get_blink_distn = normalized [npmodelb_get_rate_off, npmodelb_get_rate_on]"

definition npmodelb_get_Q_primary :: "real list list" where
  "npmodelb_get_Q_primary =
     (let f = 2.0; s = 0.5
      in [
        [0, f, 1, 0, 0, 0],
        [s, 0, 0, 1, 0, 0],
        [s, 0, 0, 1, 1, 0],
        [0, f, 1, 0, 0, 1],
        [0, 0, 1, 0, 0, 0],
        [0, 0, 0, 1, 0, 0]])"

definition npmodelb_get_T_and_root :: "DiGraph \<times> string" where
  "npmodelb_get_T_and_root =
     (let T = DiGraph_new;
          T = add_edges_from T [
            (''N1'', ''N0''),
            (''N1'', ''N2''),
            (''N1'', ''N5''),
            (''N2'', ''N3''),
            (''N2'', ''N4'')]
      in (T, ''N1''))"

definition npmodelb_get_edge_to_blen :: "string \<times> string \<rightharpoonup> real" where
  "npmodelb_get_edge_to_blen =
     (let blen = 0.5
      in [
        (''N1'', ''N0'') \<mapsto> 0,
        (''N1'', ''N2'') \<mapsto> 0,
        (''N1'', ''N5'') \<mapsto> blen,
        (''N2'', ''N3'') \<mapsto> 2.0 * blen,
        (''N2'', ''N4'') \<mapsto> 0.5 * blen])"

section \<open>Evaluating the literals\<close>

lemmas data_defs =
  primary_data_0_def primary_data_1_def primary_data_2_def primary_data_3_def
  tol_data_0_def tol_data_1_def tol_data_2_def tol_data_3_def np_array_bool_def

lemma get_data_body_int:
  "get_data_body (PInt 0) = Inr (primary_data_0, tol_data_0)"
  "get_data_body (PInt 1) = Inr (primary_data_1, tol_data_1)"
  "get_data_body (PInt 2) = Inr (primary_data_2, tol_data_2)"
  "get_data_body (PInt 3) = Inr (primary_data_3, tol_data_3)"
  by (simp_all add: get_data_body_def)

lemma get_data_bound:
  "get_data (globals(''data_level'' \<mapsto> v)) level = get_data_body v"
  by (simp add: get_data_def load_global_def)

lemma npdata_globals_data_level: "npdata_globals ''data_level'' = None"
  by (simp add: npdata_globals_def)

lemma get_data_unbound:
  "get_data npdata_globals level = Inl (NameError ''data_level'')"
  by (simp add: get_data_def load_global_def npdata_globals_data_level)

lemma all_less_6:
  "(\<forall>i<(6::nat). P i) \<longleftrightarrow> P 0 \<and> P 1 \<and> P 2 \<and> P 3 \<and> P 4 \<and> P 5"
proof -
  have "i < 6 \<longleftrightarrow> i = 0 \<or> i = 1 \<or> i = 2 \<or> i = 3 \<or> i = 4 \<or> i = 5" for i :: nat
    by arith
  then show ?thesis by auto
qed

lemma all_less_2: "(\<forall>i<(2::nat). P i) \<longleftrightarrow> P 0 \<and> P 1"
proof -
  have "i < 2 \<longleftrightarrow> i = 0 \<or> i = 1" for i :: nat
    by arith
  then show ?thesis by auto
qed

subsection \<open>One step up the levels, for the primary process\<close>

lemma primary_step_0:
  "\<forall>node \<in> set node_names. \<exists>v v'.
     primary_at (get_data_body (PInt 0)) node = Some v \<and>
     primary_at (get_data_body (PInt 1)) node = Some v' \<and>
     length v = 6 \<and> length v' = 6 \<and> (\<forall>i<6. \<not> v ! i \<longrightarrow> \<not> v' ! i)"
  by (simp add: node_names_def primary_at_def get_data_body_int data_defs all_less_6)

lemma primary_step_1:
  "\<forall>node \<in> set node_names. \<exists>v v'.
     primary_at (get_data_body (PInt 1)) node = Some v \<and>
     primary_at (get_data_body (PInt 2)) node = Some v' \<and>
     length v = 6 \<and> length v' = 6 \<and> (\<forall>i<6. \<not> v ! i \<longrightarrow> \<not> v' ! i)"
  by (simp add: node_names_def primary_at_def get_data_body_int data_defs all_less_6)

lemma primary_step_2:
  "\<forall>node \<in> set node_names. \<exists>v v'.
     primary_at (get_data_body (PInt 2)) node = Some v \<and>
     primary_at (get_data_body (PInt 3)) node = Some v' \<and>
     length v = 6 \<and> length v' = 6 \<and> (\<forall>i<6. \<not> v ! i \<longrightarrow> \<not> v' ! i)"
  by (simp add: node_names_def primary_at_def get_data_body_int data_defs all_less_6)

subsection \<open>One step up the levels, for the tolerance processes\<close>

lemma tol_step_0:
  "\<forall>node \<in> set node_names. \<forall>c \<in> {0, 1, 2}. \<exists>w w'.
     tol_at (get_data_body (PInt 0)) c node = Some w \<and>
     tol_at (get_data_body (PInt 1)) c node = Some w' \<and>
     length w = 2 \<and> length w' = 2 \<and> (\<forall>i<2. \<not> w ! i \<longrightarrow> \<not> w' ! i)"
  by (simp add: node_names_def tol_at_def get_data_body_int data_defs all_less_2)

lemma tol_step_1:
  "\<forall>node \<in> set node_names. \<forall>c \<in> {0, 1, 2}. \<exists>w w'.
     tol_at (get_data_body (PInt 1)) c node = Some w \<and>
     tol_at (get_data_body (PInt 2)) c node = Some w' \<and>
     length w = 2 \<and> length w' = 2 \<and> (\<forall>i<2. \<not> w ! i \<longrightarrow> \<not> w' ! i)"
  by (simp add: node_names_def tol_at_def get_data_body_int data_defs all_less_2)

lemma tol_step_2:
  "\<forall>node \<in> set node_names. \<forall>c \<in> {0, 1, 2}. \<exists>w w'.
     tol_at (get_data_body (PInt 2)) c node = Some w \<and>
     tol_at (get_data_body (PInt 3)) c node = Some w' \<and>
     length w = 2 \<and> length w' = 2 \<and> (\<forall>i<2. \<not> w ! i \<longrightarrow> \<not> w' ! i)"
  by (simp add: node_names_def tol_at_def get_data_body_int data_defs all_less_2)

subsection \<open>Every vector of every level has a true entry\<close>

lemma primary_some_true:
  "\<forall>node \<in> set node_names. \<exists>v. primary_at (get_data_body (PInt 0)) node = Some v \<and> True \<in> set v"
  "\<forall>node \<in> set node_names. \<exists>v. primary_at (get_data_body (PInt 1)) node = Some v \<and> True \<in> set v"
  "\<forall>node \<in> set node_names. \<exists>v. primary_at (get_data_body (PInt 2)) node = Some v \<and> True \<in> set v"
  "\<forall>node \<in> set node_names. \<exists>v. primary_at (get_data_body (PInt 3)) node = Some v \<and> True \<in> set v"
  by (simp_all add: node_names_def primary_at_def get_data_body_int data_defs)

lemma tol_some_true:
  "\<forall>node \<in> set node_names. \<forall>c \<in> {0, 1, 2}.
     \<exists>w. tol_at (get_data_body (PInt 0)) c node = Some w \<and> True \<in> set w"
  "\<forall>node \<in> set node_names. \<forall>c \<in> {0, 1, 2}.
     \<exists>w. tol_at (get_data_body (PInt 1)) c node = Some w \<and> True \<in> set w"
  "\<forall>node \<in> set node_names. \<forall>c \<in> {0, 1, 2}.
     \<exists>w. tol_at (get_data_body (PInt 2)) c node = Some w \<and> True \<in> set w"
  "\<forall>node \<in> set node_names. \<forall>c \<in> {0, 1, 2}.
     \<exists>w. tol_at (get_data_body (PInt 3)) c node = Some w \<and> True \<in> set w"
  by (simp_all add: node_names_def tol_at_def get_data_body_int data_defs)

subsection \<open>Levels 1, 2 and 3 side by side\<close>

lemma primary_data_same:
  "primary_data_2 = primary_data_1" "primary_data_3 = primary_data_1"
  by (simp_all only: primary_data_1_def primary_data_2_def primary_data_3_def)

lemma tol_data_differ: "tol_data_2 \<noteq> tol_data_1" "tol_data_3 \<noteq> tol_data_1"
proof -
  have 1: "the (tol_data_1 1) ''N0'' = Some [True, True]"
    by (simp add: tol_data_1_def np_array_bool_def)
  have 2: "the (tol_data_2 1) ''N0'' = Some [True, False]"
    by (simp add: tol_data_2_def np_array_bool_def)
  have 3: "the (tol_data_3 1) ''N0'' = Some [True, False]"
    by (simp add: tol_data_3_def np_array_bool_def)
  show "tol_data_2 \<noteq> tol_data_1"
  proof
    assume "tol_data_2 = tol_data_1"
    with 1 2 show False by simp
  qed
  show "tol_data_3 \<noteq> tol_data_1"
  proof
    assume "tol_data_3 = tol_data_1"
    with 1 3 show False by simp
  qed
qed

subsection \<open>The rate matrices\<close>

lemma Q_primary_A:
  "length npmodel_get_Q_primary = 6 \<and>
   (\<forall>i<6. length (npmodel_get_Q_primary ! i) = 6 \<and> npmodel_get_Q_primary ! i ! i = 0 \<and>
      (\<forall>j<6. i \<noteq> j \<longrightarrow> 0 \<le> npmodel_get_Q_primary ! i ! j))"
  by (simp add: npmodel_get_Q_primary_def all_less_6)

lemma Q_primary_B:
  "length npmodelb_get_Q_primary = 6 \<and>
   (\<forall>i<6. length (npmodelb_get_Q_primary ! i) = 6 \<and> npmodelb_get_Q_primary ! i ! i = 0 \<and>
      (\<forall>j<6. i \<noteq> j \<longrightarrow> 0 \<le> npmodelb_get_Q_primary ! i ! j))"
  by (simp add: npmodelb_get_Q_primary_def all_less_6 Let_def)

subsection \<open>The tree\<close>

lemma add_node_rec:
  "add_node \<lparr>nodes = ns, edges = es\<rparr> n =
     \<lparr>nodes = (if n \<in> set ns then ns else ns @ [n]), edges = es\<rparr>"
  by (simp add: add_node_def)

lemma add_edge_rec:
  "add_edge \<lparr>nodes = ns, edges = es\<rparr> (u, v) =
     \<lparr>nodes = (let ns' = (if u \<in> set ns then ns else ns @ [u])
               in if v \<in> set ns' then ns' else ns' @ [v]),
      edges = (if (u, v) \<in> set es then es else es @ [(u, v)])\<rparr>"
  by (simp add: add_edge_def add_node_rec Let_def)

lemma T_and_root_value:
  "npmodel_get_T_and_root =
     (\<lparr>nodes = [''N1'', ''N0'', ''N2'', ''N5'', ''N3'', ''N4''],
       edges = [(''N1'', ''N0''), (''N1'', ''N2''), (''N1'', ''N5''),
                (''N2'', ''N3''), (''N2'', ''N4'')]\<rparr>, ''N1'')"
  by (simp add: npmodel_get_T_and_root_def DiGraph_new_def add_edges_from_def add_edge_rec)

lemma T_and_root_same: "npmodelb_get_T_and_root = npmodel_get_T_and_root"
  by (simp only: npmodel_get_T_and_root_def npmodelb_get_T_and_root_def)

text \<open>
  Every edge goes from a node to a node that is strictly deeper below \<open>N1\<close>, so the edge
  relation is well-founded, and a well-founded relation has no cycle.
\<close>

lemma tree_edges_acyclic:
  "acyclic (set [(''N1'', ''N0''), (''N1'', ''N2''), (''N1'', ''N5''),
                (''N2'', ''N3''), (''N2'', ''N4'')])"
proof -
  let ?depth = "\<lambda>n. if n = ''N1'' then 0 else if n = ''N2'' then 1 else (2::nat)"
  have "set [(''N1'', ''N0''), (''N1'', ''N2''), (''N1'', ''N5''),
             (''N2'', ''N3''), (''N2'', ''N4'')] \<subseteq> measure ?depth"
    by simp
  then have "wf (set [(''N1'', ''N0''), (''N1'', ''N2''), (''N1'', ''N5''),
             (''N2'', ''N3''), (''N2'', ''N4'')])"
    by (rule wf_subset [OF wf_measure])
  then show ?thesis by (rule wf_acyclic)
qed

lemma out_tree_A:
  "snd npmodel_get_T_and_root = ''N1'' \<and>
   set (nodes (fst npmodel_get_T_and_root)) = set node_names \<and>
   in_degree (fst npmodel_get_T_and_root) (snd npmodel_get_T_and_root) = 0 \<and>
   (\<forall>n \<in> set (nodes (fst npmodel_get_T_and_root)).
      n \<noteq> snd npmodel_get_T_and_root \<longrightarrow> in_degree (fst npmodel_get_T_and_root) n = 1) \<and>
   acyclic (set (edges (fst npmodel_get_T_and_root)))"
proof -
  have "set (nodes (fst npmodel_get_T_and_root)) = set node_names"
    by (simp add: T_and_root_value node_names_def insert_commute)
  moreover have "in_degree (fst npmodel_get_T_and_root) (snd npmodel_get_T_and_root) = 0"
    by (simp add: T_and_root_value in_degree_def)
  moreover have "\<forall>n \<in> set (nodes (fst npmodel_get_T_and_root)).
      n \<noteq> snd npmodel_get_T_and_root \<longrightarrow> in_degree (fst npmodel_get_T_and_root) n = 1"
    by (simp add: T_and_root_value in_degree_def)
  moreover have "acyclic (set (edges (fst npmodel_get_T_and_root)))"
    using tree_edges_acyclic by (simp only: T_and_root_value fst_conv DiGraph.simps)
  ultimately show ?thesis by (simp add: T_and_root_value)
qed

subsection \<open>The branch lengths\<close>

lemma edge_to_blen_A_dom:
  "dom npmodel_get_edge_to_blen =
     set [(''N1'', ''N0''), (''N1'', ''N2''), (''N1'', ''N5''), (''N2'', ''N3''), (''N2'', ''N4'')]"
  by (simp add: npmodel_get_edge_to_blen_def insert_commute)

lemma edge_to_blen_A_nonneg: "npmodel_get_edge_to_blen e = Some b \<Longrightarrow> 0 \<le> b"
  by (simp add: npmodel_get_edge_to_blen_def split: if_splits)

lemma edge_to_blen_B_dom:
  "dom npmodelb_get_edge_to_blen =
     set [(''N1'', ''N0''), (''N1'', ''N2''), (''N1'', ''N5''), (''N2'', ''N3''), (''N2'', ''N4'')]"
  by (simp add: npmodelb_get_edge_to_blen_def insert_commute)

lemma edge_to_blen_B_nonneg: "npmodelb_get_edge_to_blen e = Some b \<Longrightarrow> 0 \<le> b"
  by (simp add: npmodelb_get_edge_to_blen_def split: if_splits)

lemma T_edges:
  "set (edges (fst npmodel_get_T_and_root)) =
     set [(''N1'', ''N0''), (''N1'', ''N2''), (''N1'', ''N5''), (''N2'', ''N3''), (''N2'', ''N4'')]"
  by (simp only: T_and_root_value fst_conv DiGraph.simps)

section \<open>Properties of \<open>get_data\<close>\<close>

text \<open>
  Claim C1: \<open>get_data(level)\<close> returns the data of its level for a level in
  \<open>{0, 1, 2, 3}\<close> and fails on any other level with the invalid-level exception.
  The code does not behave so, because it tests the unbound global name \<open>data_level\<close>
  in place of its parameter. In the namespace of the module, \<open>get_data(1)\<close> raises
  \<open>NameError\<close> where the level-1 data is expected, and \<open>get_data(7)\<close> raises
  \<open>NameError\<close> where \<open>Exception('invalid data level')\<close> is expected. Were the name
  bound to 0 from outside, both calls would return the level-0 data.
\<close>

theorem get_data_level_argument_unused:
  "get_data npdata_globals (PInt 1) = Inl (NameError ''data_level'') \<and>
   get_data npdata_globals (PInt 7) = Inl (NameError ''data_level'') \<and>
   get_data (npdata_globals(''data_level'' \<mapsto> PInt 0)) (PInt 1) =
     Inr (primary_data_0, tol_data_0) \<and>
   get_data (npdata_globals(''data_level'' \<mapsto> PInt 0)) (PInt 7) =
     Inr (primary_data_0, tol_data_0)"
  by (simp add: get_data_unbound get_data_bound get_data_body_int)

text \<open>
  Claim C2 (filtration): for every level \<open>L\<close> in \<open>{0, 1, 2}\<close> and every node, the
  data sets of the branches for \<open>L\<close> and \<open>L + 1\<close> both hold a vector of 6 primary
  states and, for every tolerance class in \<open>{0, 1, 2}\<close>, a vector of 2 tolerance
  states; and every state index that the data of level \<open>L\<close> marks as disallowed
  (\<open>False\<close>) is disallowed in the data of level \<open>L + 1\<close> as well.
\<close>

theorem data_filtration:
  assumes "L \<in> {0, 1, 2}" and "node \<in> set node_names"
  shows "(\<exists>v v'. primary_at (get_data_body (PInt L)) node = Some v \<and>
            primary_at (get_data_body (PInt (L + 1))) node = Some v' \<and>
            length v = 6 \<and> length v' = 6 \<and> (\<forall>i<6. \<not> v ! i \<longrightarrow> \<not> v' ! i)) \<and>
         (\<forall>c \<in> {0, 1, 2}. \<exists>w w'. tol_at (get_data_body (PInt L)) c node = Some w \<and>
            tol_at (get_data_body (PInt (L + 1))) c node = Some w' \<and>
            length w = 2 \<and> length w' = 2 \<and> (\<forall>i<2. \<not> w ! i \<longrightarrow> \<not> w' ! i))"
proof -
  from assms(1) consider "L = 0" | "L = 1" | "L = 2" by auto
  then show ?thesis
  proof cases
    case 1
    then have "L + 1 = 1" by simp
    with 1 primary_step_0 [THEN bspec, OF assms(2)] tol_step_0 [THEN bspec, OF assms(2)]
    show ?thesis by simp
  next
    case 2
    then have "L + 1 = 2" by simp
    with 2 primary_step_1 [THEN bspec, OF assms(2)] tol_step_1 [THEN bspec, OF assms(2)]
    show ?thesis by simp
  next
    case 3
    then have "L + 1 = 3" by simp
    with 3 primary_step_2 [THEN bspec, OF assms(2)] tol_step_2 [THEN bspec, OF assms(2)]
    show ?thesis by simp
  qed
qed

text \<open>
  At level 2, node \<open>N3\<close>: primary state 0 is disallowed at level 2 and stays disallowed
  at level 3; tolerance state 0 of class 0 is allowed at level 2 and disallowed at
  level 3.
\<close>

theorem data_filtration_witness:
  "(2::int) \<in> {0, 1, 2} \<and> ''N3'' \<in> set node_names \<and> (0::int) \<in> {0, 1, 2} \<and>
   (\<exists>v v'. primary_at (get_data_body (PInt 2)) ''N3'' = Some v \<and>
      primary_at (get_data_body (PInt 3)) ''N3'' = Some v' \<and>
      \<not> v ! 0 \<and> \<not> v' ! 0) \<and>
   (\<exists>w w'. tol_at (get_data_body (PInt 2)) 0 ''N3'' = Some w \<and>
      tol_at (get_data_body (PInt 3)) 0 ''N3'' = Some w' \<and>
      w ! 0 \<and> \<not> w' ! 0 \<and> w ! 1 \<and> w' ! 1)"
proof -
  have h: "(2::int) \<in> {0, 1, 2}" "''N3'' \<in> set node_names"
    by (simp_all add: node_names_def)
  show ?thesis
    using h data_filtration [OF h]
    by (simp add: primary_at_def tol_at_def get_data_body_int data_defs)
qed

text \<open>
  Claim C3: the calls \<open>get_data(1)\<close> and \<open>get_data(3)\<close> of the scenarios return the
  vectors the spec lists. The code does not behave so, by the defect of claim C1: in
  the namespace of the module both calls raise \<open>NameError\<close>, and with \<open>data_level\<close>
  bound to 1 from outside the call \<open>get_data(3)\<close> still returns \<open>[True, True]\<close> for
  class 0 at node \<open>N3\<close>. The literals of the branches themselves are the ones the
  scenarios name.
\<close>

theorem get_data_scenarios_not_returned:
  "get_data npdata_globals (PInt 1) = Inl (NameError ''data_level'') \<and>
   get_data npdata_globals (PInt 3) = Inl (NameError ''data_level'') \<and>
   tol_at (get_data (npdata_globals(''data_level'' \<mapsto> PInt 1)) (PInt 3)) 0 ''N3''
     = Some [True, True] \<and>
   primary_at (get_data_body (PInt 1)) ''N0'' = Some [True, False, False, False, False, False] \<and>
   tol_at (get_data_body (PInt 1)) 0 ''N0'' = Some [False, True] \<and>
   tol_at (get_data_body (PInt 1)) 0 ''N3'' = Some [True, True] \<and>
   tol_at (get_data_body (PInt 3)) 0 ''N3'' = Some [False, True]"
  by (simp add: get_data_unbound get_data_bound get_data_body_int primary_at_def tol_at_def
      data_defs)

text \<open>
  Claim C8: for every level in \<open>{0, 1, 2, 3}\<close> and every node, the primary vector of the
  data set of that level has a \<open>True\<close> entry, and so has the tolerance vector of every
  class in \<open>{0, 1, 2}\<close>.
\<close>

theorem data_never_empty:
  assumes "L \<in> {0, 1, 2, 3}" and "node \<in> set node_names"
  shows "(\<exists>v. primary_at (get_data_body (PInt L)) node = Some v \<and> True \<in> set v) \<and>
         (\<forall>c \<in> {0, 1, 2}. \<exists>w. tol_at (get_data_body (PInt L)) c node = Some w \<and> True \<in> set w)"
proof -
  from assms(1) consider "L = 0" | "L = 1" | "L = 2" | "L = 3" by auto
  then show ?thesis
  proof cases
    case 1
    with primary_some_true(1) [THEN bspec, OF assms(2)] tol_some_true(1) [THEN bspec, OF assms(2)]
    show ?thesis by simp
  next
    case 2
    with primary_some_true(2) [THEN bspec, OF assms(2)] tol_some_true(2) [THEN bspec, OF assms(2)]
    show ?thesis by simp
  next
    case 3
    with primary_some_true(3) [THEN bspec, OF assms(2)] tol_some_true(3) [THEN bspec, OF assms(2)]
    show ?thesis by simp
  next
    case 4
    with primary_some_true(4) [THEN bspec, OF assms(2)] tol_some_true(4) [THEN bspec, OF assms(2)]
    show ?thesis by simp
  qed
qed

theorem data_never_empty_witness:
  "(3::int) \<in> {0, 1, 2, 3} \<and> ''N4'' \<in> set node_names \<and> (1::int) \<in> {0, 1, 2} \<and>
   (\<exists>v. primary_at (get_data_body (PInt 3)) ''N4'' = Some v \<and> True \<in> set v) \<and>
   (\<exists>w. tol_at (get_data_body (PInt 3)) 1 ''N4'' = Some w \<and> True \<in> set w)"
proof -
  have h: "(3::int) \<in> {0, 1, 2, 3}" "''N4'' \<in> set node_names"
    by (simp_all add: node_names_def)
  show ?thesis
    using h data_never_empty [OF h] by simp
qed



text \<open>
  Claim C9. For any two argument values \<open>a\<close> and \<open>b\<close>, in any global namespace,
  \<open>get_data(a)\<close> and \<open>get_data(b)\<close> have the same outcome, be it the returned pair or the
  exception raised: the branch is chosen by the global name \<open>data_level\<close>, never by the
  parameter.
\<close>

theorem get_data_ignores_level: "get_data globals a = get_data globals b"
  by (simp add: get_data_def)

text \<open>
  Claim C10: the branches for the levels 1, 2 and 3 bind \<open>primary_data\<close> to one and the
  same mapping (the same vector at each of the six nodes), while the \<open>tol_data\<close> of
  level 2 and that of level 3 each differ from the \<open>tol_data\<close> of level 1.
\<close>

theorem primary_data_levels_1_2_3_equal:
  "\<exists>p t1 t2 t3.
     get_data_body (PInt 1) = Inr (p, t1) \<and>
     get_data_body (PInt 2) = Inr (p, t2) \<and>
     get_data_body (PInt 3) = Inr (p, t3) \<and>
     t2 \<noteq> t1 \<and> t3 \<noteq> t1"
  by (simp add: get_data_body_int primary_data_same tol_data_differ)

section \<open>Properties of the two parameter sets\<close>

text \<open>
  Claim C4: in model A and in model B, \<open>get_Q_primary()\<close> is a matrix of 6 rows of 6
  entries, every diagonal entry is zero, and every entry off the diagonal is
  non-negative.
\<close>

theorem Q_primary_zero_diagonal_nonneg:
  assumes "Q \<in> {npmodel_get_Q_primary, npmodelb_get_Q_primary}" and "i < 6" and "j < 6"
  shows "length Q = 6 \<and> length (Q ! i) = 6 \<and> Q ! i ! i = 0 \<and> (i \<noteq> j \<longrightarrow> 0 \<le> Q ! i ! j)"
proof -
  from assms(1) consider "Q = npmodel_get_Q_primary" | "Q = npmodelb_get_Q_primary"
    by auto
  then show ?thesis
  proof cases
    case 1
    with Q_primary_A assms(2,3) show ?thesis by blast
  next
    case 2
    with Q_primary_B assms(2,3) show ?thesis by blast
  qed
qed

text \<open>Model B, row 0: the diagonal entry is 0 and the entry in column 1 is 2.\<close>

theorem Q_primary_zero_diagonal_nonneg_witness:
  "npmodelb_get_Q_primary \<in> {npmodel_get_Q_primary, npmodelb_get_Q_primary} \<and>
   (0::nat) < 6 \<and> (1::nat) < 6 \<and> (0::nat) \<noteq> 1 \<and>
   npmodelb_get_Q_primary ! 0 ! 0 = 0 \<and> 0 \<le> npmodelb_get_Q_primary ! 0 ! 1 \<and>
   npmodelb_get_Q_primary ! 0 ! 1 = 2"
proof -
  have h: "npmodelb_get_Q_primary \<in> {npmodel_get_Q_primary, npmodelb_get_Q_primary}"
    "(0::nat) < 6" "(1::nat) < 6"
    by simp_all
  have v: "npmodelb_get_Q_primary ! 0 ! 1 = 2"
    by (simp add: npmodelb_get_Q_primary_def Let_def)
  from Q_primary_zero_diagonal_nonneg [OF h]
  have "npmodelb_get_Q_primary ! 0 ! 0 = 0 \<and> 0 \<le> npmodelb_get_Q_primary ! 0 ! 1"
    by simp
  with h v show ?thesis by simp
qed

text \<open>
  Claim C5: \<open>get_blink_distn()\<close> is the vector \<open>(rate_off, rate_on)\<close> normalized to sum
  to 1. In model B the rates are \<open>rate_on = 2.0\<close> and \<open>rate_off = 0.5\<close> and the result is
  \<open>[0.2, 0.8]\<close>; in model A both rates are 1.0 and the result is \<open>[0.5, 0.5]\<close>; in both
  models the result sums to 1.
\<close>

theorem blink_distn_values:
  "npmodelb_get_rate_on = 2.0 \<and> npmodelb_get_rate_off = 0.5 \<and>
   npmodelb_get_blink_distn = normalized [npmodelb_get_rate_off, npmodelb_get_rate_on] \<and>
   npmodelb_get_blink_distn = [0.2, 0.8] \<and>
   sum_list npmodelb_get_blink_distn = 1 \<and>
   npmodel_get_rate_on = 1.0 \<and> npmodel_get_rate_off = 1.0 \<and>
   npmodel_get_blink_distn = normalized [npmodel_get_rate_off, npmodel_get_rate_on] \<and>
   npmodel_get_blink_distn = [0.5, 0.5] \<and>
   sum_list npmodel_get_blink_distn = 1"
  by (simp add: npmodelb_get_blink_distn_def npmodel_get_blink_distn_def normalized_def
      npmodelb_get_rate_on_def npmodelb_get_rate_off_def npmodel_get_rate_on_def
      npmodel_get_rate_off_def)

text \<open>
  Claim C6: in model A and in model B, the graph returned by \<open>get_T_and_root()\<close> is a
  rooted out-tree over the nodes \<open>N0\<close> to \<open>N5\<close>: the returned root is \<open>N1\<close> and has no
  incoming edge, every other node has exactly one incoming edge (so the root is the
  only node of in-degree zero), and the edges form no cycle.
\<close>

theorem T_and_root_out_tree:
  assumes "r \<in> {npmodel_get_T_and_root, npmodelb_get_T_and_root}"
  shows "snd r = ''N1'' \<and>
         set (nodes (fst r)) = set node_names \<and>
         in_degree (fst r) (snd r) = 0 \<and>
         (\<forall>n \<in> set (nodes (fst r)). n \<noteq> snd r \<longrightarrow> in_degree (fst r) n = 1) \<and>
         acyclic (set (edges (fst r)))"
proof -
  from assms have r: "r = npmodel_get_T_and_root"
    by (auto simp: T_and_root_same)
  show ?thesis unfolding r by (rule out_tree_A)
qed

text \<open>Model B, node \<open>N3\<close>: it is a node, it is not the root, and one edge ends in it.\<close>

theorem T_and_root_out_tree_witness:
  "npmodelb_get_T_and_root \<in> {npmodel_get_T_and_root, npmodelb_get_T_and_root} \<and>
   ''N3'' \<in> set (nodes (fst npmodelb_get_T_and_root)) \<and>
   ''N3'' \<noteq> snd npmodelb_get_T_and_root \<and>
   in_degree (fst npmodelb_get_T_and_root) ''N3'' = 1"
proof -
  have h: "npmodelb_get_T_and_root \<in> {npmodel_get_T_and_root, npmodelb_get_T_and_root}"
    by simp
  have n: "''N3'' \<in> set (nodes (fst npmodelb_get_T_and_root))"
    "''N3'' \<noteq> snd npmodelb_get_T_and_root"
    by (simp_all add: T_and_root_same T_and_root_value)
  from T_and_root_out_tree [OF h] n
  have "in_degree (fst npmodelb_get_T_and_root) ''N3'' = 1"
    by blast
  with h n show ?thesis by simp
qed

text \<open>
  Claim C7: in model A and in model B, the keys of the mapping returned by
  \<open>get_edge_to_blen()\<close> are exactly the edges of the graph returned by
  \<open>get_T_and_root()\<close>, and every branch length in the mapping is non-negative.
\<close>

theorem edge_to_blen_keys_and_values:
  "dom npmodel_get_edge_to_blen = set (edges (fst npmodel_get_T_and_root)) \<and>
   (\<forall>e b. npmodel_get_edge_to_blen e = Some b \<longrightarrow> 0 \<le> b) \<and>
   dom npmodelb_get_edge_to_blen = set (edges (fst npmodelb_get_T_and_root)) \<and>
   (\<forall>e b. npmodelb_get_edge_to_blen e = Some b \<longrightarrow> 0 \<le> b)"
  using edge_to_blen_A_nonneg edge_to_blen_B_nonneg
  by (simp add: edge_to_blen_A_dom edge_to_blen_B_dom T_and_root_same T_edges)

text \<open>Model B, edge \<open>(N2, N4)\<close>: its branch length is \<open>0.5 * blen = 0.25\<close>.\<close>

theorem edge_to_blen_keys_and_values_witness:
  "npmodelb_get_edge_to_blen (''N2'', ''N4'') = Some 0.25 \<and> (0::real) \<le> 0.25"
proof -
  have v: "npmodelb_get_edge_to_blen (''N2'', ''N4'') = Some 0.25"
    by (simp add: npmodelb_get_edge_to_blen_def)
  from edge_to_blen_keys_and_values
  have "\<forall>e b. npmodelb_get_edge_to_blen e = Some b \<longrightarrow> 0 \<le> b"
    by blast
  with v have "(0::real) \<le> 0.25" by blast
  with v show ?thesis by simp
qed

end
